theory Spec2Isabelle
  imports Complex_Main "HOL-Library.Sublist"
begin

section \<open>SpendSense consumer UI: education modules and persona routing\<close>

text \<open>
  The repository is the TypeScript/React front end of SpendSense. The functions embedded
  here are the data loaders and pure helpers of the education modules
  (\<open>BalanceTransferModule\<close>, \<open>SubscriptionModule\<close>, \<open>SavingsGoalModule\<close>) and of
  \<open>PersonaModuleRouter\<close>.

  Conventions of the embedding:
  \<^item> a JavaScript number is an exact \<open>real\<close> (finite values, no rounding), except in
    the savings-goal timeline, whose arithmetic is IEEE 754 double precision with every
    operation rounded; a field that may be \<open>undefined\<close> or \<open>null\<close> is an \<open>option\<close>;
  \<^item> a React state cell is a field of a state record, and a \<open>setX\<close> call is a record
    update; a state updater \<open>setX(prev => e)\<close> is the function \<open>\<lambda>prev. e\<close>;
  \<^item> an \<open>await\<close> that may reject is an input of a sum type, the left injection
    carrying the value caught by \<open>catch\<close>.
\<close>

subsection \<open>JavaScript truthiness and the \<open>||\<close> operator\<close>

text \<open>\<open>x || d\<close> on an optional number: \<open>undefined\<close>, \<open>null\<close> and \<open>0\<close> are falsy.\<close>

definition num_or :: "real option \<Rightarrow> real \<Rightarrow> real" where
  "num_or x d = (case x of None \<Rightarrow> d | Some v \<Rightarrow> if v = 0 then d else v)"

text \<open>\<open>x || d\<close> on an optional string: \<open>undefined\<close>, \<open>null\<close> and the empty string are falsy.\<close>

definition str_or :: "string option \<Rightarrow> string \<Rightarrow> string" where
  "str_or x d = (case x of None \<Rightarrow> d | Some v \<Rightarrow> if v = [] then d else v)"

text \<open>Truthiness of an optional string, as tested by \<open>if (x)\<close>.\<close>

definition str_truthy :: "string option \<Rightarrow> bool" where
  "str_truthy x = (case x of None \<Rightarrow> False | Some v \<Rightarrow> v \<noteq> [])"

subsection \<open>SubscriptionModule: selection toggling\<close>

text \<open>
  \<^verbatim>\<open>
  function toggleSubscription(index: number) {
    setSelectedIndices(prev =>
      prev.includes(index) ? prev.filter(i => i !== index) : [...prev, index])
  }
  \<close>
  The function below is the updater applied to the previous selection.
\<close>

definition toggleSubscription :: "nat \<Rightarrow> nat list \<Rightarrow> nat list" where
  "toggleSubscription index prev =
     (if index \<in> set prev then filter (\<lambda>i. i \<noteq> index) prev else prev @ [index])"

subsection \<open>PersonaModuleRouter: choosing the persona\<close>

text \<open>
  The user document returned by \<open>fetchUser\<close>, as far as \<open>loadPersona\<close> reads it:
  \<open>user.personas\<close> with its \<open>'30d'\<close> and \<open>'180d'\<close> entries, each entry holding an
  optional \<open>primary_persona\<close>, an optional \<open>persona\<close> and an optional
  \<open>match_percentages\<close> object. The object is kept as the list of its entries in the
  order \<open>Object.entries\<close> enumerates them. Persona names are strings: the casts
  \<open>as Persona\<close> do not check anything at run time.
\<close>

record persona_data =
  primary_persona :: "string option"
  persona_name :: "string option"
  match_percentages :: "(string \<times> real) list option"

record persona_windows =
  window_30d :: "persona_data option"
  window_180d :: "persona_data option"

record user_doc =
  personas :: "persona_windows option"

text \<open>What a rejected \<open>await\<close> hands to \<open>catch (err)\<close>.\<close>

datatype js_error = Error string | Thrown

text \<open>\<open>err instanceof Error ? err.message : fallback\<close>\<close>

fun error_message :: "js_error \<Rightarrow> string \<Rightarrow> string" where
  "error_message (Error msg) fallback = msg"
| "error_message Thrown fallback = fallback"

text \<open>The four state cells of the component.\<close>

record router_state =
  persona :: "string option"
  loading :: bool
  error :: "string option"
  debugInfo :: string

definition yes_no :: "'a option \<Rightarrow> string" where
  "yes_no x = (case x of None \<Rightarrow> ''no'' | Some _ \<Rightarrow> ''yes'')"

text \<open>
  Lines 52 to 70 of \<open>loadPersona\<close>: the branch \<open>if (personaData) { ... }\<close>, returning
  the detected persona (\<open>None\<close> for \<open>null\<close>) and the state after its \<open>setDebugInfo\<close>
  call. \<open>numStr\<close> renders a number inside a template string.
  \<open>entries.sort((a, b) => b[1] - a[1])\<close> is a stable sort by descending value.
\<close>

definition fromPersonaData ::
  "(real \<Rightarrow> string) \<Rightarrow> persona_data \<Rightarrow> router_state \<Rightarrow> string option \<times> router_state" where
  "fromPersonaData numStr personaData st =
     (if str_truthy (primary_persona personaData) then
        (primary_persona personaData,
         st\<lparr>debugInfo := ''Using primary_persona: '' @ str_or (primary_persona personaData) []\<rparr>)
      else if str_truthy (persona_name personaData) then
        (persona_name personaData,
         st\<lparr>debugInfo := ''Using persona: '' @ str_or (persona_name personaData) []\<rparr>)
      else
        (case match_percentages personaData of
           None \<Rightarrow> (None, st)
         | Some matches \<Rightarrow>
             (case sort_key (\<lambda>e. - snd e) matches of
                [] \<Rightarrow> (None, st\<lparr>debugInfo := ''No match percentages found''\<rparr>)
              | best # _ \<Rightarrow>
                  if snd best > 0 then
                    (Some (fst best),
                     st\<lparr>debugInfo :=
                          ''Using highest match: '' @ fst best @ '' ('' @ numStr (snd best) @ ''%)''\<rparr>)
                  else (None, st\<lparr>debugInfo := ''No match percentages found''\<rparr>))))"

text \<open>
  Lines 40 to 76: \<open>personas['30d'] || personas['180d']\<close> picks the window (an object is
  always truthy, a missing entry is not).
\<close>

definition detectPersona ::
  "(real \<Rightarrow> string) \<Rightarrow> user_doc \<Rightarrow> router_state \<Rightarrow> string option \<times> router_state" where
  "detectPersona numStr user st =
     (case personas user of
        None \<Rightarrow> (None, st\<lparr>debugInfo := ''No personas object found in user data''\<rparr>)
      | Some ps \<Rightarrow>
          (let persona30d = window_30d ps;
               persona180d = window_180d ps;
               st1 = st\<lparr>debugInfo := ''Found personas: 30d='' @ yes_no persona30d
                                       @ '', 180d='' @ yes_no persona180d\<rparr>
           in case (case persona30d of Some d \<Rightarrow> Some d | None \<Rightarrow> persona180d) of
                Some personaData \<Rightarrow> fromPersonaData numStr personaData st1
              | None \<Rightarrow> (None, st1\<lparr>debugInfo := ''No persona data found''\<rparr>)))"

text \<open>
  \<open>loadPersona\<close> as a whole: the state before the call and the outcome of
  \<open>await fetchUser(userId)\<close> give the state after the call. The last \<open>setDebugInfo\<close> is an
  updater that reads the pending value of the cell.
\<close>

definition loadPersona ::
  "(real \<Rightarrow> string) \<Rightarrow> router_state \<Rightarrow> js_error + user_doc \<Rightarrow> router_state" where
  "loadPersona numStr st0 fetched =
     (let st1 = st0\<lparr>loading := True, error := None\<rparr>
      in case fetched of
           Inr user \<Rightarrow>
             (let (detectedPersona, st2) = detectPersona numStr user st1;
                  finalPersona = str_or detectedPersona ''general_wellness''
              in st2\<lparr>persona := Some finalPersona,
                     debugInfo := debugInfo st2 @ '' | Final persona: '' @ finalPersona,
                     loading := False\<rparr>)
         | Inl err \<Rightarrow>
             st1\<lparr>error := Some (error_message err ''Failed to load persona''),
                 debugInfo := ''Error: '' @ error_message err ''Unknown error'',
                 persona := Some ''general_wellness'',
                 loading := False\<rparr>)"

text \<open>What the component renders from its state (lines 93 to 133).\<close>

datatype router_view =
  LoadingView | ErrorView | BalanceTransferView | SubscriptionView | SavingsGoalView
  | BudgetBreakdownView

definition render :: "router_state \<Rightarrow> router_view" where
  "render st =
     (if loading st then LoadingView
      else if str_truthy (error st) then ErrorView
      else if persona st = Some ''high_utilization'' then BalanceTransferView
      else if persona st = Some ''subscription_heavy'' then SubscriptionView
      else if persona st = Some ''savings_builder'' then SavingsGoalView
      else if persona st = Some ''variable_income'' then BudgetBreakdownView
      else SavingsGoalView)"

subsection \<open>BalanceTransferModule: accounts with signals, utilization badge\<close>

text \<open>
  A credit account of \<open>overview.data.accounts.credit\<close> and an account entry of the
  \<open>credit_utilization\<close> signal, with the fields \<open>loadData\<close> reads.
\<close>

record overview_account =
  account_id :: string
  mask :: "string option"
  balance :: real
  limit :: "real option"

record signal_account =
  sig_account_id :: string
  sig_utilization :: "real option"
  sig_interest_charged :: "real option"

record credit_utilization_signal =
  accounts :: "signal_account list option"
  interest_charged :: "real option"

text \<open>\<open>interface CreditAccount\<close>\<close>

record CreditAccount =
  ca_account_id :: string
  account_mask :: string
  ca_balance :: real
  credit_limit :: real
  utilization :: real
  ca_interest_charged :: real

text \<open>\<open>s.slice(-4)\<close>: the last four characters, the whole string when it is shorter.\<close>

definition slice_last4 :: "string \<Rightarrow> string" where
  "slice_last4 s = drop (length s - 4) s"

text \<open>\<open>creditSignal?.accounts?.find((a) => a.account_id === id)\<close>\<close>

definition findSignalAccount ::
  "credit_utilization_signal option \<Rightarrow> string \<Rightarrow> signal_account option" where
  "findSignalAccount creditSignal aid =
     (case creditSignal of
        None \<Rightarrow> None
      | Some cs \<Rightarrow>
          (case accounts cs of
             None \<Rightarrow> None
           | Some as \<Rightarrow> List.find (\<lambda>a. sig_account_id a = aid) as))"

text \<open>
  The body of the \<open>map\<close> callback at lines 67 to 79:
  \<^verbatim>\<open>
  credit_limit: (acc as any).limit || acc.limit || 0,
  utilization: signalAccount?.utilization
               || (acc.balance / ((acc as any).limit || acc.limit || 1)),
  interest_charged: (signalAccount as any)?.interest_charged || 0
  \<close>
\<close>

definition withSignal :: "credit_utilization_signal option \<Rightarrow> overview_account \<Rightarrow> CreditAccount" where
  "withSignal creditSignal acc =
     (let signalAccount = findSignalAccount creditSignal (account_id acc)
      in \<lparr>ca_account_id = account_id acc,
          account_mask = str_or (mask acc) (slice_last4 (account_id acc)),
          ca_balance = balance acc,
          credit_limit = num_or (limit acc) (num_or (limit acc) 0),
          utilization =
            num_or (Option.bind signalAccount sig_utilization)
              (balance acc / num_or (limit acc) (num_or (limit acc) 1)),
          ca_interest_charged = num_or (Option.bind signalAccount sig_interest_charged) 0\<rparr>)"

definition accountsWithSignals ::
  "credit_utilization_signal option \<Rightarrow> overview_account list \<Rightarrow> CreditAccount list" where
  "accountsWithSignals creditSignal creditAccountsData = map (withSignal creditSignal) creditAccountsData"

text \<open>
  The badge of an account card (line 203):
  \<^verbatim>\<open>account.utilization > 0.5 ? "destructive" : account.utilization > 0.3 ? "default" : "secondary"\<close>
\<close>

datatype badge_variant = destructive | default_badge | secondary

definition utilizationBadge :: "real \<Rightarrow> badge_variant" where
  "utilizationBadge u = (if u > 0.5 then destructive else if u > 0.3 then default_badge else secondary)"

text \<open>
  The mission page labels the overall credit utilization, a percentage, with the same two
  thresholds (\<open>pages/mission.tsx\<close>, lines 253 to 254):
  \<^verbatim>\<open>credit_utilization < 30 ? "Excellent" : credit_utilization < 50 ? "Good" : "Needs attention"\<close>
\<close>

definition utilizationLabel :: "real \<Rightarrow> string" where
  "utilizationLabel credit_utilization =
     (if credit_utilization < 30 then ''Excellent''
      else if credit_utilization < 50 then ''Good'' else ''Needs attention'')"

subsection \<open>SubscriptionModule: loading the subscription list\<close>

record merchant_entry =
  m_merchant :: "string option"
  m_amount :: "real option"
  m_monthly_equivalent :: "real option"
  m_frequency :: "string option"

text \<open>\<open>signals.subscriptions\<close>, as far as \<open>loadData\<close> reads it.\<close>

record subscriptions_signal =
  merchant_details :: "merchant_entry list option"
  recurring_merchants :: "merchant_entry list option"
  monthly_recurring :: "real option"

text \<open>\<open>interface Subscription\<close>\<close>

record Subscription =
  merchant :: string
  amount :: real
  monthly_equivalent :: real
  frequency :: string

record subscription_state =
  sub_loading :: bool
  sub_error :: "string option"
  subscriptions :: "Subscription list"
  selectedIndices :: "nat list"
  totalMonthly :: real
  totalYearly :: real

text \<open>
  \<open>subscriptionSignal?.merchant_details || subscriptionSignal?.recurring_merchants || []\<close>:
  an array is truthy even when it is empty.
\<close>

definition merchantData :: "subscriptions_signal option \<Rightarrow> merchant_entry list" where
  "merchantData subscriptionSignal =
     (case subscriptionSignal of
        None \<Rightarrow> []
      | Some sg \<Rightarrow>
          (case merchant_details sg of
             Some md \<Rightarrow> md
           | None \<Rightarrow> (case recurring_merchants sg of Some rm \<Rightarrow> rm | None \<Rightarrow> [])))"

text \<open>The \<open>map\<close> callback at lines 124 to 129.\<close>

definition toSubscription :: "merchant_entry \<Rightarrow> Subscription" where
  "toSubscription m =
     \<lparr>merchant = str_or (m_merchant m) ''Unknown'',
      amount = num_or (m_amount m) 0,
      monthly_equivalent = num_or (m_monthly_equivalent m) (num_or (m_amount m) 0),
      frequency = str_or (m_frequency m) ''monthly''\<rparr>"

text \<open>
  \<open>loadData\<close> (lines 114 to 141): the state before, and the outcome of
  \<open>await fetchSignals(userId)\<close> reduced to its \<open>subscriptions\<close> entry, give the state
  after. The total shown is read from the signal:
  \<^verbatim>\<open>const monthly = subscriptionSignal.monthly_recurring || 0\<close>
\<close>

definition loadData ::
  "subscription_state \<Rightarrow> js_error + subscriptions_signal option \<Rightarrow> subscription_state" where
  "loadData st0 fetched =
     (let st1 = st0\<lparr>sub_loading := True\<rparr>
      in case fetched of
           Inr subscriptionSignal \<Rightarrow>
             (let md = merchantData subscriptionSignal;
                  st2 =
                    (if length md > 0 then
                       (let subs = map toSubscription md;
                            monthly = num_or (Option.bind subscriptionSignal monthly_recurring) 0
                        in st1\<lparr>subscriptions := subs, totalMonthly := monthly,
                               totalYearly := monthly * 12\<rparr>)
                     else st1)
              in st2\<lparr>sub_loading := False\<rparr>)
         | Inl err \<Rightarrow>
             st1\<lparr>sub_error := Some (error_message err ''Failed to load subscriptions''),
                 sub_loading := False\<rparr>)"

subsection \<open>JavaScript numbers in double precision\<close>

text \<open>
  A JavaScript number is an IEEE 754 binary64 value: a finite double (\<open>Num x\<close>, with
  \<open>x\<close> the real number it stands for), \<open>Infinity\<close>, \<open>-Infinity\<close> or \<open>NaN\<close>. The
  two zeros are not told apart. Every comparison with \<open>NaN\<close> is false.
\<close>

datatype js_number = Num real | PosInf | NegInf | NaN

text \<open>Rounding to the nearest integer, a tie going to the even one.\<close>

definition round_half_even :: "real \<Rightarrow> int" where
  "round_half_even x =
     (let f = \<lfloor>x\<rfloor>; d = x - of_int f
      in if d < 1 / 2 then f else if 1 / 2 < d then f + 1 else if even f then f else f + 1)"

text \<open>
  A positive real \<open>m * 2 ^ e\<close> is brought to a significand \<open>m\<close> between \<open>2 ^ 52\<close> and
  \<open>2 ^ 53\<close>. The exponent stops at \<open>- 1074\<close>, where the subnormal doubles lie, and at
  \<open>972\<close>, beyond the largest double.
\<close>

function normalize_significand :: "real \<Rightarrow> int \<Rightarrow> real \<times> int" where
  "normalize_significand m e =
     (if 2 ^ 53 \<le> m \<and> e < 972 then normalize_significand (m / 2) (e + 1)
      else if m < 2 ^ 52 \<and> - 1074 < e then normalize_significand (m * 2) (e - 1)
      else (m, e))"
  by pat_completeness auto
termination
  by (relation "measure (\<lambda>(m, e). if 2 ^ 53 \<le> m \<and> e < 972 then 3000 + nat (972 - e)
                                     else nat (e + 1074))")
     auto

text \<open>\<open>n * 2 ^ e\<close> for an integer exponent of either sign.\<close>

definition scale2 :: "int \<Rightarrow> int \<Rightarrow> real" where
  "scale2 n e = (if 0 \<le> e then of_int n * 2 ^ nat e else of_int n / 2 ^ nat (- e))"

text \<open>
  The double nearest to a positive real, ties to the even significand; a result of
  \<open>2 ^ 1024\<close> or more overflows to \<open>Infinity\<close>.
\<close>

definition round64_pos :: "real \<Rightarrow> js_number" where
  "round64_pos x =
     (case normalize_significand x 0 of
        (m, e) \<Rightarrow>
          (let n = round_half_even m
           in if 972 \<le> e \<or> 2 ^ 1024 \<le> scale2 n e then PosInf else Num (scale2 n e)))"

definition js_neg :: "js_number \<Rightarrow> js_number" where
  "js_neg a = (case a of Num x \<Rightarrow> Num (- x) | PosInf \<Rightarrow> NegInf | NegInf \<Rightarrow> PosInf | NaN \<Rightarrow> NaN)"

text \<open>The double nearest to a real: what a numeric literal and every arithmetic result is.\<close>

definition round64 :: "real \<Rightarrow> js_number" where
  "round64 x = (if x = 0 then Num 0 else if 0 < x then round64_pos x else js_neg (round64_pos (- x)))"

text \<open>The operators \<open>>=\<close>, \<open>-\<close>, \<open>*\<close>, \<open>/\<close> and \<open>Math.ceil\<close> on doubles.\<close>

definition js_ge :: "js_number \<Rightarrow> js_number \<Rightarrow> bool" where
  "js_ge a b =
     (case (a, b) of
        (NaN, _) \<Rightarrow> False
      | (_, NaN) \<Rightarrow> False
      | (PosInf, _) \<Rightarrow> True
      | (_, NegInf) \<Rightarrow> True
      | (Num x, Num y) \<Rightarrow> y \<le> x
      | (_, _) \<Rightarrow> False)"

definition js_sub :: "js_number \<Rightarrow> js_number \<Rightarrow> js_number" where
  "js_sub a b =
     (case (a, b) of
        (NaN, _) \<Rightarrow> NaN
      | (_, NaN) \<Rightarrow> NaN
      | (Num x, Num y) \<Rightarrow> round64 (x - y)
      | (PosInf, PosInf) \<Rightarrow> NaN
      | (NegInf, NegInf) \<Rightarrow> NaN
      | (PosInf, _) \<Rightarrow> PosInf
      | (NegInf, _) \<Rightarrow> NegInf
      | (Num x, PosInf) \<Rightarrow> NegInf
      | (Num x, NegInf) \<Rightarrow> PosInf)"

definition js_sgn_inf :: "bool \<Rightarrow> js_number" where
  "js_sgn_inf positive = (if positive then PosInf else NegInf)"

definition js_mul :: "js_number \<Rightarrow> js_number \<Rightarrow> js_number" where
  "js_mul a b =
     (case (a, b) of
        (NaN, _) \<Rightarrow> NaN
      | (_, NaN) \<Rightarrow> NaN
      | (Num x, Num y) \<Rightarrow> round64 (x * y)
      | (Num x, PosInf) \<Rightarrow> (if x = 0 then NaN else js_sgn_inf (0 < x))
      | (Num x, NegInf) \<Rightarrow> (if x = 0 then NaN else js_sgn_inf (x < 0))
      | (PosInf, Num y) \<Rightarrow> (if y = 0 then NaN else js_sgn_inf (0 < y))
      | (NegInf, Num y) \<Rightarrow> (if y = 0 then NaN else js_sgn_inf (y < 0))
      | (PosInf, PosInf) \<Rightarrow> PosInf
      | (NegInf, NegInf) \<Rightarrow> PosInf
      | (_, _) \<Rightarrow> NegInf)"

text \<open>A zero divisor is taken as \<open>+0\<close>.\<close>

definition js_div :: "js_number \<Rightarrow> js_number \<Rightarrow> js_number" where
  "js_div a b =
     (case (a, b) of
        (NaN, _) \<Rightarrow> NaN
      | (_, NaN) \<Rightarrow> NaN
      | (Num x, Num y) \<Rightarrow>
          (if y = 0 then (if x = 0 then NaN else js_sgn_inf (0 < x)) else round64 (x / y))
      | (Num x, _) \<Rightarrow> Num 0
      | (PosInf, Num y) \<Rightarrow> js_sgn_inf (0 \<le> y)
      | (NegInf, Num y) \<Rightarrow> js_sgn_inf (y < 0)
      | (_, _) \<Rightarrow> NaN)"

definition js_ceil :: "js_number \<Rightarrow> js_number" where
  "js_ceil a = (case a of Num x \<Rightarrow> Num (of_int \<lceil>x\<rceil>) | _ \<Rightarrow> a)"

subsection \<open>SavingsGoalModule: timeline from weekly savings\<close>

text \<open>\<open>interface SavingsGoalCalculation\<close>, as the module builds it (\<open>None\<close> is \<open>null\<close>).\<close>

record SavingsGoalCalculation =
  months_needed :: "js_number option"
  years_needed :: "js_number option"
  amount_needed :: js_number
  is_achievable :: bool

text \<open>
  \<open>calculateTimelineFromWeekly\<close> (lines 65 to 108). It reads the state cells
  \<open>goalAmount\<close> (the text of the input field) and \<open>currentSavings\<close>; the built-in
  \<open>parseFloat\<close> is a parameter. \<open>currentSavings\<close> and \<open>weeklyAmount\<close> are finite
  doubles, given by the real numbers they stand for.
  \<^verbatim>\<open>
  const monthlyFromWeekly = weeklyAmount * 4.33
  const amountNeeded = goal - currentSavings
  const monthsNeeded = Math.ceil(amountNeeded / monthlyFromWeekly)
  const yearsNeeded = monthsNeeded / 12.0
  \<close>
\<close>

definition calculateTimelineFromWeekly ::
  "(string \<Rightarrow> js_number) \<Rightarrow> string \<Rightarrow> real \<Rightarrow> real \<Rightarrow> SavingsGoalCalculation" where
  "calculateTimelineFromWeekly parseFloat goalAmount currentSavings weeklyAmount =
     (if goalAmount = [] then
        \<lparr>months_needed = None, years_needed = None, amount_needed = Num 0,
         is_achievable = False\<rparr>
      else
        (let goal = parseFloat goalAmount
         in if js_ge (Num currentSavings) goal then
              \<lparr>months_needed = Some (Num 0), years_needed = Some (Num 0),
               amount_needed = Num 0, is_achievable = True\<rparr>
            else if weeklyAmount \<le> 0 then
              \<lparr>months_needed = None, years_needed = None,
               amount_needed = js_sub goal (Num currentSavings), is_achievable = False\<rparr>
            else
              (let monthlyFromWeekly = js_mul (Num weeklyAmount) (round64 4.33);
                   amountNeeded = js_sub goal (Num currentSavings);
                   monthsNeeded = js_ceil (js_div amountNeeded monthlyFromWeekly);
                   yearsNeeded = js_div monthsNeeded (round64 12.0)
               in \<lparr>months_needed = Some monthsNeeded, years_needed = Some yearsNeeded,
                   amount_needed = amountNeeded, is_achievable = True\<rparr>)))"

subsection \<open>Persona Classifier\<close>

text \<open>
  Modelled from the spec: the Persona Classifier (\<open>classify(signals)\<close>, spec section 4.2)
  is back-end code that is not among the sources; only its consumer \<open>loadPersona\<close> is.
  The signal set carries the values the five rules read. The rule table is an ordered
  list of rules, highest priority first; each rule has a persona, a predicate and the
  described criteria from which \<open>criteria_met\<close> is collected.
\<close>

datatype persona_label =
  high_utilization | subscription_heavy | variable_income | savings_builder | general_wellness

record signal_set =
  card_utilizations :: "real list"
  sig_interest :: real
  minimum_payment_only :: bool
  is_overdue :: bool
  recurring_merchant_count :: nat
  sig_monthly_recurring :: real
  subscription_share :: real
  median_pay_gap :: real
  irregular_frequency :: bool
  cash_flow_buffer :: real
  growth_rate :: real
  net_inflow :: real

record persona_rule =
  rule_persona :: persona_label
  rule_predicate :: "signal_set \<Rightarrow> bool"
  rule_criteria :: "(string \<times> (signal_set \<Rightarrow> bool)) list"

text \<open>
  Modelled from the spec: the four rules of section 4.2, in priority order
  (\<open>general_wellness\<close> is the default and has no rule).
\<close>

definition high_utilization_rule :: persona_rule where
  "high_utilization_rule =
     \<lparr>rule_persona = high_utilization,
      rule_predicate = (\<lambda>s. list_ex (\<lambda>u. u \<ge> 0.50) (card_utilizations s) \<or> sig_interest s > 0
                            \<or> minimum_payment_only s \<or> is_overdue s),
      rule_criteria =
        [(''credit_utilization >= 0.50'', \<lambda>s. list_ex (\<lambda>u. u \<ge> 0.50) (card_utilizations s)),
         (''interest_charged > 0'', \<lambda>s. sig_interest s > 0),
         (''minimum_payment_only'', minimum_payment_only),
         (''is_overdue'', is_overdue)]\<rparr>"

definition subscription_heavy_rule :: persona_rule where
  "subscription_heavy_rule =
     \<lparr>rule_persona = subscription_heavy,
      rule_predicate = (\<lambda>s. recurring_merchant_count s \<ge> 3
                            \<and> (sig_monthly_recurring s \<ge> 50 \<or> subscription_share s \<ge> 0.10)),
      rule_criteria =
        [(''recurring_merchants >= 3'', \<lambda>s. recurring_merchant_count s \<ge> 3),
         (''monthly_recurring >= 50'', \<lambda>s. sig_monthly_recurring s \<ge> 50),
         (''subscription_share >= 0.10'', \<lambda>s. subscription_share s \<ge> 0.10)]\<rparr>"

definition variable_income_rule :: persona_rule where
  "variable_income_rule =
     \<lparr>rule_persona = variable_income,
      rule_predicate = (\<lambda>s. (median_pay_gap s > 45 \<or> irregular_frequency s)
                            \<and> cash_flow_buffer s < 1.0),
      rule_criteria =
        [(''median_pay_gap > 45'', \<lambda>s. median_pay_gap s > 45),
         (''irregular_frequency'', irregular_frequency),
         (''cash_flow_buffer < 1.0'', \<lambda>s. cash_flow_buffer s < 1.0)]\<rparr>"

definition savings_builder_rule :: persona_rule where
  "savings_builder_rule =
     \<lparr>rule_persona = savings_builder,
      rule_predicate = (\<lambda>s. (growth_rate s \<ge> 0.02 \<or> net_inflow s \<ge> 200)
                            \<and> list_all (\<lambda>u. u < 0.30) (card_utilizations s)),
      rule_criteria =
        [(''growth_rate >= 0.02'', \<lambda>s. growth_rate s \<ge> 0.02),
         (''net_inflow >= 200'', \<lambda>s. net_inflow s \<ge> 200),
         (''all credit_utilization < 0.30'', \<lambda>s. list_all (\<lambda>u. u < 0.30) (card_utilizations s))]\<rparr>"

definition rule_table :: "persona_rule list" where
  "rule_table =
     [high_utilization_rule, subscription_heavy_rule, variable_income_rule, savings_builder_rule]"

text \<open>
  Modelled from the spec: \<open>criteria_met\<close> is the ordered list of the descriptions of the
  winning rule's criteria that hold.
\<close>

definition criteria_met_of :: "(string \<times> (signal_set \<Rightarrow> bool)) list \<Rightarrow> signal_set \<Rightarrow> string list" where
  "criteria_met_of criteria s = map fst (filter (\<lambda>c. snd c s) criteria)"

text \<open>
  Modelled from the spec: "Rules are evaluated as an ordered table, highest priority first;
  the first rule whose predicate is true wins", with General Wellness the "default when
  no rule above matches".
\<close>

fun first_match :: "persona_rule list \<Rightarrow> signal_set \<Rightarrow> persona_label \<times> string list" where
  "first_match [] s = (general_wellness, [])"
| "first_match (r # rest) s =
     (if rule_predicate r s then (rule_persona r, criteria_met_of (rule_criteria r) s)
      else first_match rest s)"

definition classify :: "signal_set \<Rightarrow> persona_label \<times> string list" where
  "classify s = first_match rule_table s"

text \<open>
  Modelled from the spec: the same evaluation as a relation between a rule table, a signal
  set and an outcome, one rule per sentence of the spec. It is used to state that the
  outcome of a classification is unique.
\<close>

inductive assigns :: "persona_rule list \<Rightarrow> signal_set \<Rightarrow> persona_label \<times> string list \<Rightarrow> bool" where
  wins: "rule_predicate r s \<Longrightarrow>
         assigns (r # rest) s (rule_persona r, criteria_met_of (rule_criteria r) s)"
| skips: "\<not> rule_predicate r s \<Longrightarrow> assigns rest s out \<Longrightarrow> assigns (r # rest) s out"
| fallback: "assigns [] s (general_wellness, [])"

code_pred assigns .

subsection \<open>Guardrail Validator\<close>

text \<open>
  Modelled from the spec: the Guardrail Validator (spec sections 4.5 and 7) is back-end
  code that is not among the sources. A candidate carries its rendered rationale and the
  outcome of the eligibility re-check; the tone check scans the rationale for every entry
  of the prohibited-phrase list.
\<close>

record candidate =
  content_id :: string
  rationale :: string
  eligibility_ok :: bool

definition tone_check :: "string list \<Rightarrow> string \<Rightarrow> bool" where
  "tone_check prohibited rendered = (\<not> list_ex (\<lambda>phrase. sublist phrase rendered) prohibited)"

definition guardrails_pass :: "string list \<Rightarrow> candidate \<Rightarrow> bool" where
  "guardrails_pass prohibited c = (tone_check prohibited (rationale c) \<and> eligibility_ok c)"

text \<open>
  Modelled from the spec: "discard the candidate, try the next-ranked alternative; if none
  remain, omit that recommendation slot". \<open>fill_slots prohibited n ranked\<close> fills up to
  \<open>n\<close> recommendation slots from the candidates in rank order.
\<close>

fun fill_slots :: "string list \<Rightarrow> nat \<Rightarrow> candidate list \<Rightarrow> candidate list" where
  "fill_slots prohibited 0 ranked = []"
| "fill_slots prohibited (Suc n) [] = []"
| "fill_slots prohibited (Suc n) (c # rest) =
     (if guardrails_pass prohibited c then c # fill_slots prohibited n rest
      else fill_slots prohibited (Suc n) rest)"

section \<open>Properties\<close>

subsection \<open>SubscriptionModule: selection\<close>

lemma count_list_filter_neq:
  "count_list (filter (\<lambda>i. i \<noteq> x) xs) j = (if j = x then 0 else count_list xs j)"
  by (induction xs) auto

lemma count_list_append1:
  "count_list (xs @ [x]) j = count_list xs j + (if j = x then 1 else 0)"
  by (induction xs) auto

text \<open>
  Claim C10. Toggling the same subscription index twice gives a selection with exactly
  the indices of the original selection; a selection without duplicates stays without
  duplicates under a toggle, and in any selection a toggle never raises the number of
  occurrences of an index above both one and its former count.
\<close>

theorem toggleSubscription_twice_same_indices:
  "set (toggleSubscription i (toggleSubscription i sel)) = set sel
   \<and> (distinct sel \<longrightarrow> distinct (toggleSubscription i sel))
   \<and> count_list (toggleSubscription i sel) j \<le> max 1 (count_list sel j)"
proof (intro conjI)
  show "set (toggleSubscription i (toggleSubscription i sel)) = set sel"
    by (auto simp: toggleSubscription_def)
  show "distinct sel \<longrightarrow> distinct (toggleSubscription i sel)"
    by (simp add: toggleSubscription_def)
  show "count_list (toggleSubscription i sel) j \<le> max 1 (count_list sel j)"
    by (simp add: toggleSubscription_def count_list_filter_neq count_list_append1
        count_list_0_iff)
qed

theorem toggleSubscription_twice_same_indices_witness:
  "distinct [0, 2 :: nat]
   \<and> toggleSubscription 1 [0, 2] = [0, 2, 1]
   \<and> toggleSubscription 1 (toggleSubscription 1 [0, 2]) = [0, 2]
   \<and> distinct (toggleSubscription 1 [0, 2])"
  using toggleSubscription_twice_same_indices [of 1 "[0, 2]" 1]
  by (simp add: toggleSubscription_def)

subsection \<open>PersonaModuleRouter\<close>

lemma fst_fromPersonaData:
  "fst (fromPersonaData numStr d st) =
     (if str_truthy (primary_persona d) then primary_persona d
      else if str_truthy (persona_name d) then persona_name d
      else case match_percentages d of
             None \<Rightarrow> None
           | Some matches \<Rightarrow>
               (case sort_key (\<lambda>e. - snd e) matches of
                  [] \<Rightarrow> None
                | best # _ \<Rightarrow> if snd best > 0 then Some (fst best) else None))"
  by (simp add: fromPersonaData_def split: option.splits list.splits)

lemma fst_detectPersona:
  "fst (detectPersona numStr user st) =
     (case personas user of
        None \<Rightarrow> None
      | Some ps \<Rightarrow>
          (case window_30d ps of
             Some d \<Rightarrow> fst (fromPersonaData numStr d st)
           | None \<Rightarrow>
               (case window_180d ps of
                  Some d \<Rightarrow> fst (fromPersonaData numStr d st)
                | None \<Rightarrow> None)))"
  by (simp add: detectPersona_def fst_fromPersonaData Let_def split: option.splits)

lemma persona_loadPersona_Inr:
  "persona (loadPersona numStr st (Inr user)) =
     Some (str_or (fst (detectPersona numStr user st)) ''general_wellness'')"
  by (simp add: loadPersona_def Let_def case_prod_beta fst_detectPersona fst_fromPersonaData
      cong: option.case_cong)

lemma persona_loadPersona_Inl:
  "persona (loadPersona numStr st (Inl err)) = Some ''general_wellness''"
  by (simp add: loadPersona_def)

lemma str_or_None: "str_or None d = d"
  by (simp add: str_or_def)

lemma sort_key_head_in_set:
  "sort_key f xs = y # ys \<Longrightarrow> y \<in> set xs"
  by (metis list.set_intros(1) set_sort)

lemma no_positive_match:
  assumes "\<not> str_truthy (primary_persona d)" "\<not> str_truthy (persona_name d)"
    and "\<forall>m. match_percentages d = Some m \<longrightarrow> (\<forall>e \<in> set m. snd e \<le> 0)"
  shows "fst (fromPersonaData numStr d st) = None"
  using assms
  by (fastforce simp: fst_fromPersonaData split: option.splits list.splits
      dest!: sort_key_head_in_set)

lemma loading_loadPersona: "loading (loadPersona numStr st fetched) = False"
  by (cases fetched) (simp_all add: loadPersona_def Let_def case_prod_beta)

lemma error_loadPersona_Inr: "error (loadPersona numStr st (Inr user)) = None"
  by (simp add: loadPersona_def Let_def case_prod_beta detectPersona_def fromPersonaData_def
      split: option.splits list.splits)

lemma render_loadPersona_Inr:
  "render (loadPersona numStr st (Inr user)) =
     (let p = persona (loadPersona numStr st (Inr user)) in
      if p = Some ''high_utilization'' then BalanceTransferView
      else if p = Some ''subscription_heavy'' then SubscriptionView
      else if p = Some ''savings_builder'' then SavingsGoalView
      else if p = Some ''variable_income'' then BudgetBreakdownView
      else SavingsGoalView)"
  by (simp add: render_def loading_loadPersona error_loadPersona_Inr str_truthy_def Let_def)

lemma detectPersona_state_independent:
  "fst (detectPersona numStr user st) = fst (detectPersona numStr user st')
   \<and> debugInfo (snd (detectPersona numStr user st)) = debugInfo (snd (detectPersona numStr user st'))"
  by (simp add: detectPersona_def fromPersonaData_def Let_def split: option.splits list.splits)

lemma loadPersona_state_independent:
  "loadPersona numStr (st :: router_state) fetched = loadPersona numStr st' fetched"
proof (cases fetched)
  case (Inl err)
  then show ?thesis by (simp add: loadPersona_def)
next
  case (Inr user)
  then show ?thesis
    by (simp add: loadPersona_def Let_def case_prod_beta detectPersona_def fromPersonaData_def
      split: option.splits list.splits)
qed


text \<open>
  Claim C5. Whenever \<open>loadPersona\<close> detects no persona (no \<open>personas\<close> object, neither a
  30d nor a 180d entry, or an entry with no usable \<open>primary_persona\<close>, \<open>persona\<close> or
  positive match percentage), and also when \<open>fetchUser\<close> fails, the persona stored for
  routing is \<open>general_wellness\<close>. After \<open>loadPersona\<close> the stored persona is never
  absent and never the empty string, and with \<open>general_wellness\<close> the component shows the
  savings-goal module (or the error notice when the load failed).
\<close>

theorem loadPersona_defaults_to_general_wellness:
  "persona (loadPersona numStr st (Inl err)) = Some ''general_wellness''
   \<and> (personas user = None \<longrightarrow>
        persona (loadPersona numStr st (Inr user)) = Some ''general_wellness'')
   \<and> (personas user = Some ps \<and> window_30d ps = None \<and> window_180d ps = None \<longrightarrow>
        persona (loadPersona numStr st (Inr user)) = Some ''general_wellness'')
   \<and> (personas user = Some ps
        \<and> (case window_30d ps of Some d30 \<Rightarrow> Some d30 | None \<Rightarrow> window_180d ps) = Some d
        \<and> \<not> str_truthy (primary_persona d) \<and> \<not> str_truthy (persona_name d)
        \<and> (\<forall>m. match_percentages d = Some m \<longrightarrow> (\<forall>e \<in> set m. snd e \<le> 0)) \<longrightarrow>
        persona (loadPersona numStr st (Inr user)) = Some ''general_wellness'')
   \<and> persona (loadPersona numStr st fetched) \<noteq> None
   \<and> persona (loadPersona numStr st fetched) \<noteq> Some []
   \<and> (persona (loadPersona numStr st fetched) = Some ''general_wellness'' \<longrightarrow>
        render (loadPersona numStr st fetched) \<in> {SavingsGoalView, ErrorView})"
proof (intro conjI impI)
  show "persona (loadPersona numStr st (Inl err)) = Some ''general_wellness''"
    by (rule persona_loadPersona_Inl)
  show "persona (loadPersona numStr st (Inr user)) = Some ''general_wellness''"
    if "personas user = None"
    using that by (simp add: persona_loadPersona_Inr fst_detectPersona str_or_None)
  show "persona (loadPersona numStr st (Inr user)) = Some ''general_wellness''"
    if "personas user = Some ps \<and> window_30d ps = None \<and> window_180d ps = None"
    using that by (simp add: persona_loadPersona_Inr fst_detectPersona str_or_None)
  show "persona (loadPersona numStr st (Inr user)) = Some ''general_wellness''"
    if h: "personas user = Some ps
        \<and> (case window_30d ps of Some d30 \<Rightarrow> Some d30 | None \<Rightarrow> window_180d ps) = Some d
        \<and> \<not> str_truthy (primary_persona d) \<and> \<not> str_truthy (persona_name d)
        \<and> (\<forall>m. match_percentages d = Some m \<longrightarrow> (\<forall>e \<in> set m. snd e \<le> 0))"
  proof -
    from h have "fst (fromPersonaData numStr d st) = None"
      by (intro no_positive_match) simp_all
    moreover from h have "fst (detectPersona numStr user st) = fst (fromPersonaData numStr d st)"
      by (auto simp: fst_detectPersona split: option.splits)
    ultimately show ?thesis
      by (simp add: persona_loadPersona_Inr str_or_None)
  qed
  show "persona (loadPersona numStr st fetched) \<noteq> None"
    by (cases fetched) (simp_all add: persona_loadPersona_Inr persona_loadPersona_Inl)
  show "persona (loadPersona numStr st fetched) \<noteq> Some []"
    by (cases fetched)
      (simp_all add: persona_loadPersona_Inr persona_loadPersona_Inl str_or_def
        split: option.splits)
  show "render (loadPersona numStr st fetched) \<in> {SavingsGoalView, ErrorView}"
    if "persona (loadPersona numStr st fetched) = Some ''general_wellness''"
    using that by (simp add: render_def loading_loadPersona)
qed


theorem loadPersona_defaults_to_general_wellness_witness:
  "persona (loadPersona (\<lambda>_. []) \<lparr>persona = None, loading = True, error = None, debugInfo = []\<rparr>
      (Inl (Error ''API error: Not Found''))) = Some ''general_wellness''
   \<and> persona (loadPersona (\<lambda>_. []) \<lparr>persona = None, loading = True, error = None, debugInfo = []\<rparr>
      (Inr \<lparr>personas = None\<rparr>)) = Some ''general_wellness''
   \<and> persona (loadPersona (\<lambda>_. []) \<lparr>persona = None, loading = True, error = None, debugInfo = []\<rparr>
      (Inr \<lparr>personas = Some \<lparr>window_30d = None, window_180d = None\<rparr>\<rparr>)) = Some ''general_wellness''
   \<and> persona (loadPersona (\<lambda>_. []) \<lparr>persona = None, loading = True, error = None, debugInfo = []\<rparr>
      (Inr \<lparr>personas = Some \<lparr>window_30d = None, window_180d = Some
          \<lparr>primary_persona = None, persona_name = Some [],
           match_percentages = Some [(''savings_builder'', 0), (''variable_income'', 0)]\<rparr>\<rparr>\<rparr>))
       = Some ''general_wellness''
   \<and> render (loadPersona (\<lambda>_. []) \<lparr>persona = None, loading = True, error = None, debugInfo = []\<rparr>
      (Inr \<lparr>personas = None\<rparr>)) = SavingsGoalView"
  using
    loadPersona_defaults_to_general_wellness
      [where numStr = "\<lambda>_. []"
         and st = "\<lparr>persona = None, loading = True, error = None, debugInfo = []\<rparr>"
         and err = "Error ''API error: Not Found''"
         and user = "\<lparr>personas = None\<rparr>"
         and fetched = "Inr \<lparr>personas = None\<rparr>"]
    loadPersona_defaults_to_general_wellness
      [where numStr = "\<lambda>_. []"
         and st = "\<lparr>persona = None, loading = True, error = None, debugInfo = []\<rparr>"
         and user = "\<lparr>personas = Some \<lparr>window_30d = None, window_180d = None\<rparr>\<rparr>"
         and ps = "\<lparr>window_30d = None, window_180d = None\<rparr>"]
    loadPersona_defaults_to_general_wellness
      [where numStr = "\<lambda>_. []"
         and st = "\<lparr>persona = None, loading = True, error = None, debugInfo = []\<rparr>"
         and user = "\<lparr>personas = Some \<lparr>window_30d = None, window_180d = Some
              \<lparr>primary_persona = None, persona_name = Some [],
               match_percentages = Some [(''savings_builder'', 0), (''variable_income'', 0)]\<rparr>\<rparr>\<rparr>"
         and ps = "\<lparr>window_30d = None, window_180d = Some
              \<lparr>primary_persona = None, persona_name = Some [],
               match_percentages = Some [(''savings_builder'', 0), (''variable_income'', 0)]\<rparr>\<rparr>"
         and d = "\<lparr>primary_persona = None, persona_name = Some [],
               match_percentages = Some [(''savings_builder'', 0), (''variable_income'', 0)]\<rparr>"]
  by (simp add: str_truthy_def render_def loading_loadPersona error_loadPersona_Inr)

text \<open>
  Claim C8. When the user document has a 30d persona entry, the persona stored for routing
  is the one read from that entry (or \<open>general_wellness\<close> when the entry yields none),
  and replacing or removing the 180d entry changes neither the stored persona nor the
  module shown.
\<close>

theorem loadPersona_prefers_30d_window:
  assumes "personas user = Some ps" and "window_30d ps = Some d30"
  shows "persona (loadPersona numStr st (Inr user)) =
           Some (str_or (fst (fromPersonaData numStr d30 st)) ''general_wellness'')
         \<and> persona (loadPersona numStr st (Inr (user\<lparr>personas := Some (ps\<lparr>window_180d := other\<rparr>)\<rparr>)))
             = persona (loadPersona numStr st (Inr user))
         \<and> render (loadPersona numStr st (Inr (user\<lparr>personas := Some (ps\<lparr>window_180d := other\<rparr>)\<rparr>)))
             = render (loadPersona numStr st (Inr user))"
  using assms
  by (simp add: render_loadPersona_Inr persona_loadPersona_Inr fst_detectPersona)


theorem loadPersona_prefers_30d_window_witness:
  "persona (loadPersona (\<lambda>_. []) \<lparr>persona = None, loading = True, error = None, debugInfo = []\<rparr>
      (Inr \<lparr>personas = Some
          \<lparr>window_30d = Some \<lparr>primary_persona = Some ''high_utilization'', persona_name = None,
                               match_percentages = None\<rparr>,
           window_180d = Some \<lparr>primary_persona = Some ''savings_builder'', persona_name = None,
                                match_percentages = None\<rparr>\<rparr>\<rparr>))
     = Some ''high_utilization''
   \<and> persona (loadPersona (\<lambda>_. []) \<lparr>persona = None, loading = True, error = None, debugInfo = []\<rparr>
      (Inr \<lparr>personas = Some
          \<lparr>window_30d = Some \<lparr>primary_persona = Some ''high_utilization'', persona_name = None,
                               match_percentages = None\<rparr>,
           window_180d = None\<rparr>\<rparr>))
     = Some ''high_utilization''"
  using loadPersona_prefers_30d_window
    [where numStr = "\<lambda>_. []"
       and st = "\<lparr>persona = None, loading = True, error = None, debugInfo = []\<rparr>"
       and user = "\<lparr>personas = Some
          \<lparr>window_30d = Some \<lparr>primary_persona = Some ''high_utilization'', persona_name = None,
                               match_percentages = None\<rparr>,
           window_180d = Some \<lparr>primary_persona = Some ''savings_builder'', persona_name = None,
                                match_percentages = None\<rparr>\<rparr>\<rparr>"
       and ps = "\<lparr>window_30d = Some \<lparr>primary_persona = Some ''high_utilization'',
                               persona_name = None, match_percentages = None\<rparr>,
           window_180d = Some \<lparr>primary_persona = Some ''savings_builder'', persona_name = None,
                                match_percentages = None\<rparr>\<rparr>"
       and ?d30.0 = "\<lparr>primary_persona = Some ''high_utilization'', persona_name = None,
                               match_percentages = None\<rparr>"
       and other = None]
  by (simp add: fst_fromPersonaData str_truthy_def str_or_def)

subsection \<open>BalanceTransferModule\<close>

text \<open>
  Claim C1, as stated, fails: an account whose limit is missing is kept in the list and
  given the utilization \<open>balance / 1\<close>.
\<close>

theorem missing_limit_account_not_skipped:
  "limit \<lparr>account_id = ''acc_0001'', mask = None, balance = 3400, limit = None\<rparr> = None
   \<and> accountsWithSignals None
     [\<lparr>account_id = ''acc_0001'', mask = None, balance = 3400, limit = None\<rparr>]
   = [\<lparr>ca_account_id = ''acc_0001'', account_mask = ''0001'', ca_balance = 3400,
       credit_limit = 0, utilization = 3400, ca_interest_charged = 0\<rparr>]"
  by (simp add: accountsWithSignals_def withSignal_def findSignalAccount_def num_or_def
      str_or_def slice_last4_def)

text \<open>
  Claim C1, amended. The utilization of an account is the utilization of its entry in the
  credit-utilization signal when that entry has one that is not zero; otherwise it is
  the balance divided by the limit, and when the limit is zero or missing the divisor is
  1, so the utilization is the balance. Every account is kept: no account is skipped.
\<close>

theorem withSignal_utilization_cases:
  "(Option.bind (findSignalAccount creditSignal (account_id acc)) sig_utilization = Some v \<and> v \<noteq> 0
      \<longrightarrow> utilization (withSignal creditSignal acc) = v)
   \<and> (Option.bind (findSignalAccount creditSignal (account_id acc)) sig_utilization \<in> {None, Some 0}
        \<and> limit acc = Some l \<and> l \<noteq> 0
      \<longrightarrow> utilization (withSignal creditSignal acc) = balance acc / l)
   \<and> (Option.bind (findSignalAccount creditSignal (account_id acc)) sig_utilization \<in> {None, Some 0}
        \<and> limit acc \<in> {None, Some 0}
      \<longrightarrow> utilization (withSignal creditSignal acc) = balance acc)
   \<and> length (accountsWithSignals creditSignal creditAccountsData) = length creditAccountsData
   \<and> map ca_account_id (accountsWithSignals creditSignal creditAccountsData)
       = map account_id creditAccountsData"
  by (auto simp: withSignal_def accountsWithSignals_def num_or_def Let_def)

theorem withSignal_utilization_cases_witness:
  "utilization (withSignal
      (Some \<lparr>accounts = Some [\<lparr>sig_account_id = ''acc_4523'', sig_utilization = Some 0.7,
                                sig_interest_charged = None\<rparr>],
             interest_charged = None\<rparr>)
      \<lparr>account_id = ''acc_4523'', mask = Some ''4523'', balance = 3400, limit = Some 5000\<rparr>) = 0.7
   \<and> utilization (withSignal None
      \<lparr>account_id = ''acc_4523'', mask = Some ''4523'', balance = 3400, limit = Some 5000\<rparr>)
       = 3400 / 5000
   \<and> utilization (withSignal None
      \<lparr>account_id = ''acc_4523'', mask = Some ''4523'', balance = 3400, limit = Some 0\<rparr>) = 3400"
  using
    withSignal_utilization_cases
      [where creditSignal = "Some \<lparr>accounts = Some [\<lparr>sig_account_id = ''acc_4523'',
                 sig_utilization = Some 0.7, sig_interest_charged = None\<rparr>],
             interest_charged = None\<rparr>"
         and acc = "\<lparr>account_id = ''acc_4523'', mask = Some ''4523'', balance = 3400,
                    limit = Some 5000\<rparr>"
         and v = "0.7"]
    withSignal_utilization_cases
      [where creditSignal = None
         and acc = "\<lparr>account_id = ''acc_4523'', mask = Some ''4523'', balance = 3400,
                    limit = Some 5000\<rparr>"
         and l = 5000]
    withSignal_utilization_cases
      [where creditSignal = None
         and acc = "\<lparr>account_id = ''acc_4523'', mask = Some ''4523'', balance = 3400,
                    limit = Some 0\<rparr>"]
  by (simp add: findSignalAccount_def)

text \<open>
  Claim C2. The claim puts a utilization of exactly 0.50 in the high band and one of
  exactly 0.30 in the medium band. The badge does not: an account with balance 2500 and
  limit 5000 has utilization 0.50 and gets the \<open>default\<close> (medium) badge, and one with
  balance 1500 gets the \<open>secondary\<close> (low) badge, because the badge compares with
  \<open>>\<close>. The mission page, with \<open><\<close> on the same thresholds, puts 50 percent in
  its top band and 30 percent in its middle band, as the claim does.
\<close>

theorem utilizationBadge_half_not_high:
  "utilization (withSignal None
       \<lparr>account_id = ''acc_4523'', mask = Some ''4523'', balance = 2500, limit = Some 5000\<rparr>) = 0.5
   \<and> utilizationBadge (utilization (withSignal None
       \<lparr>account_id = ''acc_4523'', mask = Some ''4523'', balance = 2500, limit = Some 5000\<rparr>))
     = default_badge
   \<and> utilization (withSignal None
       \<lparr>account_id = ''acc_4523'', mask = Some ''4523'', balance = 1500, limit = Some 5000\<rparr>) = 0.3
   \<and> utilizationBadge (utilization (withSignal None
       \<lparr>account_id = ''acc_4523'', mask = Some ''4523'', balance = 1500, limit = Some 5000\<rparr>))
     = secondary
   \<and> utilizationLabel 50 = ''Needs attention''
   \<and> utilizationLabel 30 = ''Good''"
  by (simp add: withSignal_def findSignalAccount_def num_or_def utilizationBadge_def
      utilizationLabel_def)

text \<open>
  The bands of the badge at every utilization, and the example of the specification:
  balance 3400 and limit 5000 give utilization 0.68 and the \<open>destructive\<close> (high) badge.
\<close>

lemma utilizationBadge_bands:
  "(utilizationBadge u = destructive \<longleftrightarrow> u > 0.5)
   \<and> (utilizationBadge u = default_badge \<longleftrightarrow> 0.3 < u \<and> u \<le> 0.5)
   \<and> (utilizationBadge u = secondary \<longleftrightarrow> u \<le> 0.3)
   \<and> utilization (withSignal None
        \<lparr>account_id = ''acc_4523'', mask = Some ''4523'', balance = 3400, limit = Some 5000\<rparr>) = 0.68
   \<and> utilizationBadge (utilization (withSignal None
        \<lparr>account_id = ''acc_4523'', mask = Some ''4523'', balance = 3400, limit = Some 5000\<rparr>))
      = destructive"
  by (simp add: withSignal_def findSignalAccount_def num_or_def utilizationBadge_def)

subsection \<open>SubscriptionModule: totals\<close>

text \<open>
  Claim C6, as stated, fails: the total shown is the signal's \<open>monthly_recurring\<close>, whatever
  the listed merchants add up to. Here a weekly merchant without \<open>monthly_equivalent\<close> is
  listed at its amount 10 while the total shown is 40.
\<close>

theorem loadData_total_not_sum:
  "totalMonthly (loadData
      \<lparr>sub_loading = True, sub_error = None, subscriptions = [], selectedIndices = [],
       totalMonthly = 0, totalYearly = 0\<rparr>
      (Inr (Some \<lparr>merchant_details = None,
                  recurring_merchants = Some [\<lparr>m_merchant = Some ''Gym'', m_amount = Some 10,
                     m_monthly_equivalent = None, m_frequency = Some ''weekly''\<rparr>],
                  monthly_recurring = Some 40\<rparr>))) = 40
   \<and> sum_list (map monthly_equivalent (subscriptions (loadData
      \<lparr>sub_loading = True, sub_error = None, subscriptions = [], selectedIndices = [],
       totalMonthly = 0, totalYearly = 0\<rparr>
      (Inr (Some \<lparr>merchant_details = None,
                  recurring_merchants = Some [\<lparr>m_merchant = Some ''Gym'', m_amount = Some 10,
                     m_monthly_equivalent = None, m_frequency = Some ''weekly''\<rparr>],
                  monthly_recurring = Some 40\<rparr>))))) = 10"
  by (simp add: loadData_def merchantData_def toSubscription_def num_or_def Let_def)

lemma loadData_Inr_nonempty:
  "merchantData sg \<noteq> [] \<Longrightarrow>
   loadData st (Inr sg) =
     st\<lparr>sub_loading := False, subscriptions := map toSubscription (merchantData sg),
        totalMonthly := num_or (Option.bind sg monthly_recurring) 0,
        totalYearly := num_or (Option.bind sg monthly_recurring) 0 * 12\<rparr>"
  by (simp add: loadData_def Let_def)

lemma loadData_Inr_empty:
  "merchantData sg = [] \<Longrightarrow> loadData st (Inr sg) = st\<lparr>sub_loading := False\<rparr>"
  by (simp add: loadData_def Let_def)

text \<open>
  Claim C6, amended. When the merchant list is not empty, the monthly total shown is the
  signal's \<open>monthly_recurring\<close> (0 when absent), the yearly total is 12 times it, and
  each listed merchant's \<open>monthly_equivalent\<close> is the entry's own, defaulting to its
  amount and then to 0; the total shown equals the sum over the list exactly when the
  signal's \<open>monthly_recurring\<close> does. When the merchant list is empty, the totals and
  the list keep their previous values.
\<close>

theorem loadData_total_from_signal:
  "(merchantData sg \<noteq> [] \<longrightarrow>
      totalMonthly (loadData st (Inr sg)) = num_or (Option.bind sg monthly_recurring) 0
      \<and> totalYearly (loadData st (Inr sg)) = totalMonthly (loadData st (Inr sg)) * 12
      \<and> map monthly_equivalent (subscriptions (loadData st (Inr sg)))
          = map (\<lambda>m. num_or (m_monthly_equivalent m) (num_or (m_amount m) 0)) (merchantData sg)
      \<and> (totalMonthly (loadData st (Inr sg))
            = sum_list (map monthly_equivalent (subscriptions (loadData st (Inr sg))))
          \<longleftrightarrow> num_or (Option.bind sg monthly_recurring) 0
            = (\<Sum>m\<leftarrow>merchantData sg. num_or (m_monthly_equivalent m) (num_or (m_amount m) 0))))
   \<and> (merchantData sg = [] \<longrightarrow>
      totalMonthly (loadData st (Inr sg)) = totalMonthly st
      \<and> totalYearly (loadData st (Inr sg)) = totalYearly st
      \<and> subscriptions (loadData st (Inr sg)) = subscriptions st)"
  by (simp add: loadData_Inr_nonempty loadData_Inr_empty toSubscription_def comp_def)


theorem loadData_total_from_signal_witness:
  "totalMonthly (loadData
      \<lparr>sub_loading = True, sub_error = None, subscriptions = [], selectedIndices = [],
       totalMonthly = 0, totalYearly = 0\<rparr>
      (Inr (Some \<lparr>merchant_details = None,
                  recurring_merchants = Some [\<lparr>m_merchant = Some ''Netflix'', m_amount = Some 16,
                     m_monthly_equivalent = Some 16, m_frequency = Some ''monthly''\<rparr>],
                  monthly_recurring = Some 16\<rparr>))) = 16
   \<and> totalYearly (loadData
      \<lparr>sub_loading = True, sub_error = None, subscriptions = [], selectedIndices = [],
       totalMonthly = 0, totalYearly = 0\<rparr>
      (Inr (Some \<lparr>merchant_details = None,
                  recurring_merchants = Some [\<lparr>m_merchant = Some ''Netflix'', m_amount = Some 16,
                     m_monthly_equivalent = Some 16, m_frequency = Some ''monthly''\<rparr>],
                  monthly_recurring = Some 16\<rparr>))) = 192
   \<and> totalMonthly (loadData
      \<lparr>sub_loading = True, sub_error = None, subscriptions = [], selectedIndices = [],
       totalMonthly = 7, totalYearly = 84\<rparr> (Inr None)) = 7"
  using
    loadData_total_from_signal
      [where st = "\<lparr>sub_loading = True, sub_error = None, subscriptions = [],
                    selectedIndices = [], totalMonthly = 0, totalYearly = 0\<rparr>"
         and sg = "Some \<lparr>merchant_details = None,
                  recurring_merchants = Some [\<lparr>m_merchant = Some ''Netflix'', m_amount = Some 16,
                     m_monthly_equivalent = Some 16, m_frequency = Some ''monthly''\<rparr>],
                  monthly_recurring = Some 16\<rparr>"]
    loadData_total_from_signal
      [where st = "\<lparr>sub_loading = True, sub_error = None, subscriptions = [],
                    selectedIndices = [], totalMonthly = 7, totalYearly = 84\<rparr>"
         and sg = None]
  by (simp add: merchantData_def num_or_def)

subsection \<open>SavingsGoalModule\<close>

text \<open>
  Claim C9, as stated, fails in the third case: with goal 5000, current savings 2402 and
  20 a week, \<open>months_needed\<close> is 31, while the ceiling of
  \<open>(5000 - 2402) / (4.33 * 20)\<close> is 30. The product \<open>20 * 4.33\<close> rounds to a double
  just below 86.6, so the quotient is a double just above 30.
\<close>

theorem calculateTimelineFromWeekly_ceiling_one_more:
  "months_needed (calculateTimelineFromWeekly (\<lambda>s. if s = ''5000'' then Num 5000 else NaN) ''5000'' 2402 20)
     = Some (Num 31)
   \<and> \<lceil>(5000 - 2402) / (4.33 * 20 :: real)\<rceil> = 30"
  by (simp add: calculateTimelineFromWeekly_def js_ge_def js_sub_def js_mul_def js_div_def
      js_ceil_def round64_def round64_pos_def round_half_even_def scale2_def Let_def
      ceiling_eq_iff)

text \<open>
  Claim C9, amended. With a goal text that parses to a finite \<open>g > 0\<close>: when the current
  savings reach \<open>g\<close>, \<open>months_needed\<close> is 0 and the goal is achievable; when they do not
  and the weekly amount is not positive, the goal is not achievable and \<open>amount_needed\<close>
  is \<open>g\<close> minus the current savings, rounded to a double; otherwise the goal is
  achievable and \<open>months_needed\<close> is \<open>Math.ceil\<close> of the double-precision quotient of
  that rounded difference by the rounded product of the weekly amount and 4.33.
\<close>

theorem calculateTimelineFromWeekly_cases:
  assumes "goalAmount \<noteq> []" and "parseFloat goalAmount = Num g" and "g > 0"
  shows
  "(currentSavings \<ge> g \<longrightarrow>
      months_needed (calculateTimelineFromWeekly parseFloat goalAmount currentSavings w) = Some (Num 0)
      \<and> is_achievable (calculateTimelineFromWeekly parseFloat goalAmount currentSavings w))
   \<and> (w \<le> 0 \<and> currentSavings < g \<longrightarrow>
      \<not> is_achievable (calculateTimelineFromWeekly parseFloat goalAmount currentSavings w)
      \<and> amount_needed (calculateTimelineFromWeekly parseFloat goalAmount currentSavings w)
          = round64 (g - currentSavings))
   \<and> (w > 0 \<and> currentSavings < g \<longrightarrow>
      months_needed (calculateTimelineFromWeekly parseFloat goalAmount currentSavings w)
          = Some (js_ceil (js_div (round64 (g - currentSavings)) (js_mul (Num w) (round64 4.33))))
      \<and> is_achievable (calculateTimelineFromWeekly parseFloat goalAmount currentSavings w))"
  using assms
  by (simp add: calculateTimelineFromWeekly_def Let_def js_ge_def js_sub_def)

theorem calculateTimelineFromWeekly_cases_witness:
  "months_needed (calculateTimelineFromWeekly (\<lambda>s. if s = ''5000'' then Num 5000 else NaN) ''5000'' 6000 100) = Some (Num 0)
   \<and> is_achievable (calculateTimelineFromWeekly (\<lambda>s. if s = ''5000'' then Num 5000 else NaN) ''5000'' 6000 100)
   \<and> amount_needed (calculateTimelineFromWeekly (\<lambda>s. if s = ''5000'' then Num 5000 else NaN) ''5000'' 1000 0) = Num 4000
   \<and> \<not> is_achievable (calculateTimelineFromWeekly (\<lambda>s. if s = ''5000'' then Num 5000 else NaN) ''5000'' 1000 0)
   \<and> months_needed (calculateTimelineFromWeekly (\<lambda>s. if s = ''5000'' then Num 5000 else NaN) ''5000'' 1000 100) = Some (Num 10)
   \<and> is_achievable (calculateTimelineFromWeekly (\<lambda>s. if s = ''5000'' then Num 5000 else NaN) ''5000'' 1000 100)"
  using
    calculateTimelineFromWeekly_cases
      [where parseFloat = "(\<lambda>s. if s = ''5000'' then Num 5000 else NaN)" and goalAmount = "''5000''"
         and g = 5000 and currentSavings = 6000 and w = 100]
    calculateTimelineFromWeekly_cases
      [where parseFloat = "(\<lambda>s. if s = ''5000'' then Num 5000 else NaN)" and goalAmount = "''5000''"
         and g = 5000 and currentSavings = 1000 and w = 0]
    calculateTimelineFromWeekly_cases
      [where parseFloat = "(\<lambda>s. if s = ''5000'' then Num 5000 else NaN)" and goalAmount = "''5000''"
         and g = 5000 and currentSavings = 1000 and w = 100]
  by (simp add: js_mul_def js_div_def js_ceil_def round64_def round64_pos_def
      round_half_even_def scale2_def Let_def)

subsection \<open>Persona Classifier\<close>

lemma assigns_deterministic: "assigns tbl s o1 \<Longrightarrow> assigns tbl s o2 \<Longrightarrow> o1 = o2"
proof (induction arbitrary: o2 rule: assigns.induct)
  case (wins r s rest)
  then show ?case by (auto elim: assigns.cases)
next
  case (skips r s rest out)
  from skips.prems skips.hyps(1) have "assigns rest s o2"
    by (auto elim: assigns.cases)
  then show ?case by (rule skips.IH)
next
  case (fallback s)
  then show ?case by (auto elim: assigns.cases)
qed

lemma assigns_first_match: "assigns tbl s (first_match tbl s)"
  by (induction tbl) (auto intro: assigns.intros)

lemma first_match_wins:
  "rule_predicate r s \<Longrightarrow> \<forall>q \<in> set pre. \<not> rule_predicate q s \<Longrightarrow>
   first_match (pre @ r # post) s = (rule_persona r, criteria_met_of (rule_criteria r) s)"
  by (induction pre) auto

text \<open>
  Claim C3. Whenever the High-Utilization criteria hold (some card utilization at least
  0.50, or interest charged, or minimum payment only, or overdue), the classifier assigns
  \<open>high_utilization\<close>, whatever the other signals are.
\<close>

theorem classify_high_utilization_priority:
  assumes "(\<exists>u \<in> set (card_utilizations s). u \<ge> 0.50) \<or> sig_interest s > 0
           \<or> minimum_payment_only s \<or> is_overdue s"
  shows "fst (classify s) = high_utilization"
  using assms
  by (auto simp: classify_def rule_table_def high_utilization_rule_def list_ex_iff)

theorem classify_high_utilization_priority_witness:
  "rule_predicate subscription_heavy_rule
      \<lparr>card_utilizations = [0.68], sig_interest = 0, minimum_payment_only = True,
        is_overdue = False, recurring_merchant_count = 4, sig_monthly_recurring = 60,
        subscription_share = 0.05, median_pay_gap = 14, irregular_frequency = False,
        cash_flow_buffer = 2, growth_rate = 0, net_inflow = 0\<rparr>
   \<and> classify
      \<lparr>card_utilizations = [0.68], sig_interest = 0, minimum_payment_only = True,
        is_overdue = False, recurring_merchant_count = 4, sig_monthly_recurring = 60,
        subscription_share = 0.05, median_pay_gap = 14, irregular_frequency = False,
        cash_flow_buffer = 2, growth_rate = 0, net_inflow = 0\<rparr>
     = (high_utilization, [''credit_utilization >= 0.50'', ''minimum_payment_only''])"
  using classify_high_utilization_priority
    [where s = "\<lparr>card_utilizations = [0.68], sig_interest = 0, minimum_payment_only = True,
        is_overdue = False, recurring_merchant_count = 4, sig_monthly_recurring = 60,
        subscription_share = 0.05, median_pay_gap = 14, irregular_frequency = False,
        cash_flow_buffer = 2, growth_rate = 0, net_inflow = 0\<rparr>"]
  by (simp add: classify_def rule_table_def high_utilization_rule_def subscription_heavy_rule_def
      criteria_met_of_def)

text \<open>
  Claim C4. Persona determination is deterministic: a signal set has exactly one outcome
  (persona and \<open>criteria_met\<close>) under the rule table, the one \<open>classify\<close> returns; and
  the state \<open>loadPersona\<close> leaves behind depends on the fetched user data only, not on the
  state the component was in before.
\<close>

theorem classification_deterministic:
  "(assigns rule_table s o1 \<and> assigns rule_table s o2 \<longrightarrow> o1 = o2)
   \<and> assigns rule_table s (classify s)
   \<and> loadPersona numStr st fetched = loadPersona numStr st' fetched"
proof (intro conjI impI)
  show "o1 = o2" if "assigns rule_table s o1 \<and> assigns rule_table s o2"
    using that by (blast intro: assigns_deterministic)
  show "assigns rule_table s (classify s)"
    unfolding classify_def by (rule assigns_first_match)
  show "loadPersona numStr st fetched = loadPersona numStr st' fetched"
    by (rule loadPersona_state_independent)
qed

theorem classification_deterministic_witness:
  "assigns rule_table
      \<lparr>card_utilizations = [0.68], sig_interest = 0, minimum_payment_only = True,
        is_overdue = False, recurring_merchant_count = 4, sig_monthly_recurring = 60,
        subscription_share = 0.05, median_pay_gap = 14, irregular_frequency = False,
        cash_flow_buffer = 2, growth_rate = 0, net_inflow = 0\<rparr>
      (high_utilization, [''credit_utilization >= 0.50'', ''minimum_payment_only''])
   \<and> persona (loadPersona (\<lambda>_. [])
        \<lparr>persona = Some ''savings_builder'', loading = False, error = Some ''old'', debugInfo = ''old''\<rparr>
        (Inr \<lparr>personas = Some \<lparr>window_30d = Some \<lparr>primary_persona = None, persona_name = None,
            match_percentages = Some [(''savings_builder'', 40), (''high_utilization'', 60)]\<rparr>,
          window_180d = None\<rparr>\<rparr>)) = Some ''high_utilization''"
  using classification_deterministic
    [where s = "\<lparr>card_utilizations = [0.68], sig_interest = 0, minimum_payment_only = True,
        is_overdue = False, recurring_merchant_count = 4, sig_monthly_recurring = 60,
        subscription_share = 0.05, median_pay_gap = 14, irregular_frequency = False,
        cash_flow_buffer = 2, growth_rate = 0, net_inflow = 0\<rparr>"
       and ?o1.0 = "(high_utilization, [''credit_utilization >= 0.50'', ''minimum_payment_only''])"
       and ?o2.0 = "(high_utilization, [''credit_utilization >= 0.50'', ''minimum_payment_only''])"
       and numStr = "\<lambda>_. []"
       and st = "\<lparr>persona = Some ''savings_builder'', loading = False, error = Some ''old'', debugInfo = ''old''\<rparr>"
       and st' = "\<lparr>persona = None, loading = True, error = None, debugInfo = []\<rparr>"
       and fetched = "Inr \<lparr>personas = Some \<lparr>window_30d = Some \<lparr>primary_persona = None, persona_name = None,
            match_percentages = Some [(''savings_builder'', 40), (''high_utilization'', 60)]\<rparr>,
          window_180d = None\<rparr>\<rparr>"]
  by (simp add: classify_def rule_table_def high_utilization_rule_def criteria_met_of_def
      loadPersona_def detectPersona_def fromPersonaData_def str_truthy_def str_or_def Let_def)

subsection \<open>Guardrail Validator\<close>

lemma fill_slots_take_filter:
  "fill_slots prohibited n ranked = take n (filter (guardrails_pass prohibited) ranked)"
  by (induction prohibited n ranked rule: fill_slots.induct) auto

text \<open>
  Claim C7. No emitted recommendation's rationale contains an entry of the
  prohibited-phrase list. The emitted recommendations are the first \<open>n\<close> candidates, in
  rank order, that pass the guardrails: a failing candidate is discarded and the next one
  is tried, and when no passing candidate remains the slot stays empty.
\<close>

theorem fill_slots_never_emits_prohibited:
  "(\<forall>r \<in> set (fill_slots prohibited n ranked). \<forall>phrase \<in> set prohibited. \<not> sublist phrase (rationale r))
   \<and> fill_slots prohibited n ranked = take n (filter (guardrails_pass prohibited) ranked)
   \<and> (\<not> guardrails_pass prohibited c \<longrightarrow>
        fill_slots prohibited n (c # rest) = fill_slots prohibited n rest)
   \<and> ((\<forall>c \<in> set ranked. \<not> guardrails_pass prohibited c) \<longrightarrow> fill_slots prohibited n ranked = [])"
proof (intro conjI)
  show "\<forall>r \<in> set (fill_slots prohibited n ranked). \<forall>phrase \<in> set prohibited. \<not> sublist phrase (rationale r)"
    by (auto simp: fill_slots_take_filter guardrails_pass_def tone_check_def list_ex_iff
        dest!: in_set_takeD)
  show "fill_slots prohibited n ranked = take n (filter (guardrails_pass prohibited) ranked)"
    by (rule fill_slots_take_filter)
  show "\<not> guardrails_pass prohibited c \<longrightarrow>
        fill_slots prohibited n (c # rest) = fill_slots prohibited n rest"
    by (simp add: fill_slots_take_filter)
  show "(\<forall>c \<in> set ranked. \<not> guardrails_pass prohibited c) \<longrightarrow> fill_slots prohibited n ranked = []"
    by (simp add: fill_slots_take_filter)
qed


theorem fill_slots_never_emits_prohibited_witness:
  "\<not> guardrails_pass [''bad'']
       \<lparr>content_id = ''edu_1'', rationale = ''bad habits'', eligibility_ok = True\<rparr>
   \<and> fill_slots [''bad''] 2
       [\<lparr>content_id = ''edu_1'', rationale = ''bad habits'', eligibility_ok = True\<rparr>,
        \<lparr>content_id = ''edu_2'', rationale = ''at 68%'', eligibility_ok = True\<rparr>]
     = [\<lparr>content_id = ''edu_2'', rationale = ''at 68%'', eligibility_ok = True\<rparr>]
   \<and> \<not> sublist ''bad'' (rationale \<lparr>content_id = ''edu_2'', rationale = ''at 68%'', eligibility_ok = True\<rparr>)
   \<and> fill_slots [''bad''] 2
       [\<lparr>content_id = ''edu_1'', rationale = ''bad habits'', eligibility_ok = True\<rparr>] = []"
  using
    fill_slots_never_emits_prohibited
      [where prohibited = "[''bad'']" and n = 2
         and c = "\<lparr>content_id = ''edu_1'', rationale = ''bad habits'', eligibility_ok = True\<rparr>"
         and rest = "[\<lparr>content_id = ''edu_2'', rationale = ''at 68%'', eligibility_ok = True\<rparr>]"
         and ranked = "[\<lparr>content_id = ''edu_1'', rationale = ''bad habits'', eligibility_ok = True\<rparr>,
        \<lparr>content_id = ''edu_2'', rationale = ''at 68%'', eligibility_ok = True\<rparr>]"]
    fill_slots_never_emits_prohibited
      [where prohibited = "[''bad'']" and n = 2
         and ranked = "[\<lparr>content_id = ''edu_1'', rationale = ''bad habits'', eligibility_ok = True\<rparr>]"]
  by (simp add: guardrails_pass_def tone_check_def sublist_code)

end
